theory Spec2Isabelle
  imports Main "HOL-Library.Word" "HOL-Library.Signed_Division"
begin

section \<open>Data model of crop.c\<close>

text \<open>
  The C type \<open>int\<close> is modelled by \<open>int\<close>: signed overflow is undefined in C and no
  property below depends on it. C division truncates towards zero, which is \<open>sdiv\<close>.

  A pointer to an allocated block is the block's contents, \<open>None\<close> being \<open>NULL\<close>;
  a pointer into a block is the block together with an offset. The blocks of crop.c
  never alias: the staging buffers come fresh from \<open>mymalloc\<close> and the frame buffers
  belong to the caller.
\<close>

type_synonym byte = "8 word"
type_synonym block = "byte list"
type_synonym ptr = "block option"

text \<open>
  What stops a run: \<open>mymalloc\<close> failing (fatal for the stream), and a memory access
  through \<open>NULL\<close> or outside its block (undefined behaviour in C, a crash in practice).
\<close>

datatype fault = AllocFailure | NullPointer | OutOfBounds

text \<open>The calls of \<open>MOTION_LOG(WRN, ...)\<close>, by message and arguments.\<close>

datatype warning =
    NotPositive string int
  | WiderThanImage int int int
  | HigherThanImage int int int

text \<open>The fields of \<open>cnt->conf\<close>, \<open>cnt->crop_data\<close>, \<open>cnt->rotate_data\<close> and
  \<open>cnt->imgs\<close> that crop.c reads or writes.\<close>

record config =
  crop_left :: int
  crop_right :: int
  crop_top :: int
  crop_bottom :: int

record crop_data =
  px_left :: int
  px_right :: int
  px_top :: int
  px_bottom :: int
  capture_width_norm :: int
  capture_height_norm :: int
  capture_width_high :: int
  capture_height_high :: int
  buffer_norm :: ptr
  buffer_high :: ptr

record rotate_data =
  degrees :: int
  capture_width_norm :: int
  capture_height_norm :: int
  capture_width_high :: int
  capture_height_high :: int
  buffer_high :: ptr

record images =
  width :: int
  height :: int
  width_high :: int
  height_high :: int

record ctx =
  conf :: config
  crop_data :: crop_data
  rotate_data :: rotate_data
  imgs :: images
  motion_log :: "warning list"

record image_data =
  image_norm :: ptr
  image_high :: ptr

section \<open>Memory accesses\<close>

definition load :: "ptr \<Rightarrow> int \<Rightarrow> fault + byte" where
  "load p i =
     (case p of
        None \<Rightarrow> Inl NullPointer
      | Some bs \<Rightarrow> if 0 \<le> i \<and> i < int (length bs) then Inr (bs ! nat i) else Inl OutOfBounds)"

definition store :: "ptr \<Rightarrow> int \<Rightarrow> byte \<Rightarrow> fault + ptr" where
  "store p i v =
     (case p of
        None \<Rightarrow> Inl NullPointer
      | Some bs \<Rightarrow>
          if 0 \<le> i \<and> i < int (length bs) then Inr (Some (bs[nat i := v])) else Inl OutOfBounds)"

text \<open>\<open>memcpy(dst, src, n)\<close> with \<open>n\<close> an \<open>int\<close>: a negative \<open>n\<close> converts to a huge
  \<open>size_t\<close> and runs off both blocks.\<close>

definition memcpy :: "ptr \<Rightarrow> ptr \<Rightarrow> int \<Rightarrow> fault + ptr" where
  "memcpy dst src n =
     (case dst of
        None \<Rightarrow> Inl NullPointer
      | Some d \<Rightarrow>
          (case src of
             None \<Rightarrow> Inl NullPointer
           | Some s \<Rightarrow>
               if 0 \<le> n \<and> n \<le> int (length d) \<and> n \<le> int (length s)
               then Inr (Some (take (nat n) s @ drop (nat n) d))
               else Inl OutOfBounds))"

section \<open>crop\<close>

text \<open>
  The inner loop of \<open>crop\<close>, entered after \<open>base = base + left\<close>:
  \<^verbatim>\<open>for (...; base < base + left - right; base++) *dst++ = *base;\<close>
  \<open>base\<close> and \<open>dst\<close> are offsets into the frame buffer and the staging buffer.
  It returns the final \<open>base\<close> and \<open>dst\<close> and the staging buffer.
\<close>

function crop_span :: "ptr \<Rightarrow> int \<Rightarrow> int \<Rightarrow> ptr \<Rightarrow> int \<Rightarrow> int \<Rightarrow> fault + (int \<times> int \<times> ptr)" where
  "crop_span img left right buf dst base =
     (if base < base + left - right then
        (case load img base of
           Inl e \<Rightarrow> Inl e
         | Inr v \<Rightarrow>
             (case store buf dst v of
                Inl e \<Rightarrow> Inl e
              | Inr buf' \<Rightarrow> crop_span img left right buf' (dst + 1) (base + 1)))
      else Inr (base, dst, buf))"
  by pat_completeness auto
termination
  by (relation "measure (\<lambda>(img, left, right, buf, dst, base).
        nat (int (length (case img of None \<Rightarrow> [] | Some bs \<Rightarrow> bs)) - base))")
     (auto simp: load_def split: option.splits if_splits)

declare crop_span.simps [simp del]

text \<open>
  The outer loop of \<open>crop\<close>:
  \<^verbatim>\<open>for (base = src + width_src*top; base < src_endp; base += right) { inner loop }\<close>
  Nothing bounds the number of its rounds, so not returning is the value \<open>None\<close>.
\<close>

partial_function (option) crop_rows ::
  "ptr \<Rightarrow> int \<Rightarrow> int \<Rightarrow> int \<Rightarrow> ptr \<Rightarrow> int \<Rightarrow> int \<Rightarrow> (fault + ptr) option" where
  "crop_rows img src_endp left right buf dst base =
     (if base < src_endp then
        (case crop_span img left right buf dst (base + left) of
           Inl e \<Rightarrow> Some (Inl e)
         | Inr (base', dst', buf') \<Rightarrow> crop_rows img src_endp left right buf' dst' (base' + right))
      else Some (Inr buf))"

declare crop_rows.simps [code]

text \<open>\<open>crop(src, dst, size_src, size_dst, width_src, left, right, top, bottom)\<close>, where
  \<open>src\<close> is the frame buffer \<open>img\<close> at offset \<open>src\<close> and \<open>dst\<close> the staging buffer
  \<open>buf\<close> at offset \<open>dst\<close>. It returns the staging buffer.\<close>

definition crop ::
  "ptr \<Rightarrow> int \<Rightarrow> ptr \<Rightarrow> int \<Rightarrow> int \<Rightarrow> int \<Rightarrow> int \<Rightarrow> int \<Rightarrow> int \<Rightarrow> int \<Rightarrow> int \<Rightarrow> (fault + ptr) option" where
  "crop img src buf dst size_src size_dst width_src left right top' bottom =
     (let src_endp = src + size_src
      in crop_rows img src_endp left right buf dst (src + width_src * top'))"

section \<open>crop_init\<close>

text \<open>Appending one \<open>MOTION_LOG\<close> call to the log.\<close>

definition MOTION_LOG :: "warning \<Rightarrow> ctx \<Rightarrow> ctx" where
  "MOTION_LOG w cnt = cnt\<lparr>motion_log := motion_log cnt @ [w]\<rparr>"

text \<open>Lines 80 to 120: the four checks of the configured margins, in the source's order
  and with the source's assignments.\<close>

definition init_left :: "ctx \<Rightarrow> ctx" where
  "init_left cnt =
     (if crop_left (conf cnt) < 0 then
        (let cnt1 = MOTION_LOG (NotPositive ''crop_left'' (crop_left (conf cnt))) cnt;
             cnt2 = cnt1\<lparr>conf := (conf cnt1)\<lparr>crop_left := 0\<rparr>\<rparr>
         in cnt2\<lparr>crop_data := (crop_data cnt2)\<lparr>px_left := 0\<rparr>\<rparr>)
      else cnt\<lparr>crop_data := (crop_data cnt)\<lparr>px_left := crop_left (conf cnt)\<rparr>\<rparr>)"

definition init_right :: "ctx \<Rightarrow> ctx" where
  "init_right cnt =
     (if crop_right (conf cnt) < 0 then
        (let cnt1 = MOTION_LOG (NotPositive ''crop_right'' (crop_right (conf cnt))) cnt;
             cnt2 = cnt1\<lparr>conf := (conf cnt1)\<lparr>crop_right := 0\<rparr>\<rparr>
         in cnt2\<lparr>crop_data := (crop_data cnt2)\<lparr>px_left := 0\<rparr>\<rparr>)
      else cnt\<lparr>crop_data := (crop_data cnt)\<lparr>px_right := crop_right (conf cnt)\<rparr>\<rparr>)"

definition init_top :: "ctx \<Rightarrow> ctx" where
  "init_top cnt =
     (if crop_top (conf cnt) < 0 then
        (let cnt1 = MOTION_LOG (NotPositive ''crop_top'' (crop_top (conf cnt))) cnt;
             cnt2 = cnt1\<lparr>conf := (conf cnt1)\<lparr>crop_top := 0\<rparr>\<rparr>
         in cnt2\<lparr>crop_data := (crop_data cnt2)\<lparr>px_top := 0\<rparr>\<rparr>)
      else cnt\<lparr>crop_data := (crop_data cnt)\<lparr>px_top := crop_top (conf cnt)\<rparr>\<rparr>)"

definition init_bottom :: "ctx \<Rightarrow> ctx" where
  "init_bottom cnt =
     (if crop_bottom (conf cnt) < 0 then
        (let cnt1 = MOTION_LOG (NotPositive ''crop_bottom'' (crop_bottom (conf cnt))) cnt;
             cnt2 = cnt1\<lparr>conf := (conf cnt1)\<lparr>crop_bottom := 0\<rparr>\<rparr>
         in cnt2\<lparr>crop_data := (crop_data cnt2)\<lparr>px_bottom := 0\<rparr>\<rparr>)
      else cnt\<lparr>crop_data := (crop_data cnt)\<lparr>px_bottom := crop_bottom (conf cnt)\<rparr>\<rparr>)"

text \<open>Lines 73 to 120: both buffer pointers set to \<open>NULL\<close>, then the four checks.\<close>

definition init_margins :: "ctx \<Rightarrow> ctx" where
  "init_margins cnt =
     (let cnt0 = cnt\<lparr>crop_data := (crop_data cnt)\<lparr>buffer_norm := None\<rparr>\<rparr>;
          cnt1 = cnt0\<lparr>crop_data := (crop_data cnt0)\<lparr>crop_data.buffer_high := None\<rparr>\<rparr>
      in init_bottom (init_top (init_right (init_left cnt1))))"

text \<open>Lines 122 to 132: the two warnings about margins larger than the image.\<close>

definition init_warn :: "ctx \<Rightarrow> ctx" where
  "init_warn cnt =
     (let cnt1 =
            (if crop_left (conf cnt) + crop_right (conf cnt) > width (imgs cnt)
             then MOTION_LOG (WiderThanImage (crop_left (conf cnt)) (crop_right (conf cnt))
                                (width (imgs cnt))) cnt
             else cnt)
      in if crop_top (conf cnt1) + crop_bottom (conf cnt1) > height (imgs cnt1)
         then MOTION_LOG (HigherThanImage (crop_top (conf cnt1)) (crop_bottom (conf cnt1))
                            (height (imgs cnt1))) cnt1
         else cnt1)"

text \<open>Lines 146 to 163: the capture dimensions are recorded, and for a rotation by 90 or
  270 degrees the output dimensions are taken from \<open>rotate_data\<close>. The value of
  \<open>size_norm\<close> computed on line 152 is not read before line 196 assigns it again.\<close>

definition init_capture :: "ctx \<Rightarrow> ctx" where
  "init_capture cnt =
     (let cnt1 = cnt\<lparr>crop_data := (crop_data cnt)
                   \<lparr>crop_data.capture_width_norm := width (imgs cnt),
                    crop_data.capture_height_norm := height (imgs cnt),
                    crop_data.capture_width_high := width_high (imgs cnt),
                    crop_data.capture_height_high := height_high (imgs cnt)\<rparr>\<rparr>;
          size_high = (width_high (imgs cnt1) * height_high (imgs cnt1) * 3) sdiv 2
      in if degrees (rotate_data cnt1) = 90 \<or> degrees (rotate_data cnt1) = 270 then
           (let cnt2 = cnt1\<lparr>imgs := (imgs cnt1)
                         \<lparr>width := rotate_data.capture_height_norm (rotate_data cnt1),
                          height := rotate_data.capture_width_norm (rotate_data cnt1)\<rparr>\<rparr>
            in if size_high > 0 then
                 cnt2\<lparr>imgs := (imgs cnt2)
                   \<lparr>width_high := rotate_data.capture_height_high (rotate_data cnt2),
                    height_high := rotate_data.capture_width_high (rotate_data cnt2)\<rparr>\<rparr>
               else cnt2)
         else cnt1)"

text \<open>Lines 180 to 194: the output dimensions less the margins.\<close>

definition init_dims :: "ctx \<Rightarrow> ctx" where
  "init_dims cnt =
     (let c = crop_data cnt;
          cnt1 = cnt\<lparr>imgs := (imgs cnt)\<lparr>width := width (imgs cnt) - px_left c - px_right c\<rparr>\<rparr>;
          cnt2 = cnt1\<lparr>imgs := (imgs cnt1)
                   \<lparr>width_high := width_high (imgs cnt1) - px_left c - px_right c\<rparr>\<rparr>;
          cnt3 = cnt2\<lparr>imgs := (imgs cnt2)\<lparr>height := height (imgs cnt2) - px_top c - px_bottom c\<rparr>\<rparr>
      in cnt3\<lparr>imgs := (imgs cnt3)
           \<lparr>height_high := height_high (imgs cnt3) - px_top c - px_bottom c\<rparr>\<rparr>)"

text \<open>
  Lines 196 to 200. \<open>mymalloc\<close> is declared outside crop.c and is a parameter here: it
  returns the fresh block, or \<open>None\<close> when the allocation fails, which ends the stream.
\<close>

definition init_alloc :: "(int \<Rightarrow> block option) \<Rightarrow> ctx \<Rightarrow> fault + ctx" where
  "init_alloc mymalloc cnt =
     (let size_norm = (width (imgs cnt) * height (imgs cnt) * 3) sdiv 2;
          size_high = (width_high (imgs cnt) * height_high (imgs cnt) * 3) sdiv 2
      in case mymalloc size_norm of
           None \<Rightarrow> Inl AllocFailure
         | Some b \<Rightarrow>
             (let cnt1 = cnt\<lparr>crop_data := (crop_data cnt)\<lparr>buffer_norm := Some b\<rparr>\<rparr>
              in if size_high > 0 then
                   (case mymalloc size_high of
                      None \<Rightarrow> Inl AllocFailure
                    | Some bh \<Rightarrow>
                        Inr (cnt1\<lparr>rotate_data := (rotate_data cnt1)
                               \<lparr>rotate_data.buffer_high := Some bh\<rparr>\<rparr>))
                 else Inr cnt1))"

definition crop_init :: "(int \<Rightarrow> block option) \<Rightarrow> ctx \<Rightarrow> fault + ctx" where
  "crop_init mymalloc cnt =
     (let cnt1 = init_capture (init_warn (init_margins cnt))
      in if px_left (crop_data cnt1) = 0 \<and> px_right (crop_data cnt1) = 0
            \<and> px_top (crop_data cnt1) = 0 \<and> px_bottom (crop_data cnt1) = 0
         then Inr cnt1
         else init_alloc mymalloc (init_dims cnt1))"

text \<open>
  The output dimensions are in place on entry: either the rotation is not by 90 or 270
  degrees, or \<open>imgs\<close> already holds the values that lines 157 to 161 assign (the
  capture dimensions of \<open>rotate_data\<close>, swapped; those of the High variant only
  under the test of line 159). This is the state the rotation stage leaves behind.
\<close>

definition output_dims_in_place :: "ctx \<Rightarrow> bool" where
  "output_dims_in_place cnt =
     (if degrees (rotate_data cnt) = 90 \<or> degrees (rotate_data cnt) = 270 then
        width (imgs cnt) = rotate_data.capture_height_norm (rotate_data cnt)
        \<and> height (imgs cnt) = rotate_data.capture_width_norm (rotate_data cnt)
        \<and> (if (width_high (imgs cnt) * height_high (imgs cnt) * 3) sdiv 2 > 0 then
             width_high (imgs cnt) = rotate_data.capture_height_high (rotate_data cnt)
             \<and> height_high (imgs cnt) = rotate_data.capture_width_high (rotate_data cnt)
           else True)
      else True)"

section \<open>crop_map\<close>

text \<open>Lines 275 to 285: the frame buffer, the capture dimensions and the staging buffer
  of the variant \<open>indx\<close>, as \<open>(img, width, height, temp_buff)\<close>.\<close>

definition select_variant :: "ctx \<Rightarrow> image_data \<Rightarrow> int \<Rightarrow> ptr \<times> int \<times> int \<times> ptr" where
  "select_variant cnt img_data indx =
     (if indx = 0 then
        (image_norm img_data,
         crop_data.capture_width_norm (crop_data cnt),
         crop_data.capture_height_norm (crop_data cnt),
         buffer_norm (crop_data cnt))
      else
        (image_high img_data,
         crop_data.capture_width_high (crop_data cnt),
         crop_data.capture_height_high (crop_data cnt),
         crop_data.buffer_high (crop_data cnt)))"

text \<open>Lines 286 to 305: the local variables computed for one variant.\<close>

record geometry =
  widthc :: int
  heightc :: int
  wh :: int
  whc :: int
  size' :: int
  sizec :: int
  wh4 :: int
  wh4c :: int
  w2 :: int
  w2c :: int
  h2 :: int
  h2c :: int

definition crop_geometry :: "int \<Rightarrow> int \<Rightarrow> int \<Rightarrow> int \<Rightarrow> int \<Rightarrow> int \<Rightarrow> geometry" where
  "crop_geometry width' height' left right top' bottom =
     (let widthc' = width' - left - right;
          heightc' = height' - left - right;
          wh' = width' * height';
          whc' = widthc' * heightc'
      in \<lparr>widthc = widthc', heightc = heightc', wh = wh', whc = whc',
          size' = (wh' * 3) sdiv 2, sizec = (whc' * 3) sdiv 2,
          wh4 = wh' sdiv 4, wh4c = whc' sdiv 4,
          w2 = width' sdiv 2, w2c = widthc' sdiv 2,
          h2 = height' sdiv 2, h2c = heightc' sdiv 2\<rparr>)"

text \<open>Lines 307 to 309: the arguments of the three calls of \<open>crop\<close>, for the planes
  Y, U and V. The pointers \<open>src\<close> and \<open>dst\<close> are offsets into \<open>img\<close> and
  \<open>temp_buff\<close>.\<close>

record crop_args =
  a_src :: int
  a_dst :: int
  a_size_src :: int
  a_size_dst :: int
  a_width_src :: int
  a_left :: int
  a_right :: int
  a_top :: int
  a_bottom :: int

definition plane_calls :: "geometry \<Rightarrow> int \<Rightarrow> int \<Rightarrow> int \<Rightarrow> int \<Rightarrow> int \<Rightarrow> crop_args list" where
  "plane_calls g width' left right top' bottom =
     [\<lparr>a_src = 0, a_dst = 0, a_size_src = wh g, a_size_dst = whc g,
       a_width_src = width', a_left = left, a_right = right, a_top = top', a_bottom = bottom\<rparr>,
      \<lparr>a_src = wh g, a_dst = whc g, a_size_src = wh4 g, a_size_dst = wh4c g,
       a_width_src = width', a_left = left, a_right = right, a_top = top', a_bottom = bottom\<rparr>,
      \<lparr>a_src = wh g + wh4 g, a_dst = whc g + wh4c g, a_size_src = wh4 g, a_size_dst = wh4c g,
       a_width_src = width', a_left = left, a_right = right, a_top = top', a_bottom = bottom\<rparr>]"

text \<open>The calls run in order on the same two buffers; a call that faults or does not
  return ends the run.\<close>

fun crop_planes :: "ptr \<Rightarrow> ptr \<Rightarrow> crop_args list \<Rightarrow> (fault + ptr) option" where
  "crop_planes img buf [] = Some (Inr buf)"
| "crop_planes img buf (a # as) =
     (case crop img (a_src a) buf (a_dst a) (a_size_src a) (a_size_dst a) (a_width_src a)
             (a_left a) (a_right a) (a_top a) (a_bottom a) of
        None \<Rightarrow> None
      | Some (Inl e) \<Rightarrow> Some (Inl e)
      | Some (Inr buf') \<Rightarrow> crop_planes img buf' as)"

text \<open>The blocks behind \<open>img\<close> and \<open>temp_buff\<close> after the body, put back where
  the pointers of the variant \<open>indx\<close> live.\<close>

definition update_variant :: "ctx \<Rightarrow> image_data \<Rightarrow> int \<Rightarrow> ptr \<Rightarrow> ptr \<Rightarrow> ctx \<times> image_data" where
  "update_variant cnt img_data indx img temp_buff =
     (if indx = 0 then
        (cnt\<lparr>crop_data := (crop_data cnt)\<lparr>buffer_norm := temp_buff\<rparr>\<rparr>,
         img_data\<lparr>image_norm := img\<rparr>)
      else
        (cnt\<lparr>crop_data := (crop_data cnt)\<lparr>crop_data.buffer_high := temp_buff\<rparr>\<rparr>,
         img_data\<lparr>image_high := img\<rparr>))"

text \<open>Lines 268 to 310: the body of the loop over the variants.\<close>

definition crop_variant :: "ctx \<Rightarrow> image_data \<Rightarrow> int \<Rightarrow> (fault + ctx \<times> image_data) option" where
  "crop_variant cnt img_data indx =
     (let left = px_left (crop_data cnt);
          right = px_right (crop_data cnt);
          top' = px_top (crop_data cnt);
          bottom = px_bottom (crop_data cnt)
      in case select_variant cnt img_data indx of (img, width', height', temp_buff) \<Rightarrow>
           (let g = crop_geometry width' height' left right top' bottom
            in case crop_planes img temp_buff (plane_calls g width' left right top' bottom) of
                 None \<Rightarrow> None
               | Some (Inl e) \<Rightarrow> Some (Inl e)
               | Some (Inr temp_buff') \<Rightarrow>
                   (case memcpy img temp_buff' (sizec g) of
                      Inl e \<Rightarrow> Some (Inl e)
                    | Inr img' \<Rightarrow>
                        Some (Inr (update_variant cnt img_data indx img' temp_buff')))))"

text \<open>Lines 267 to 313: \<^verbatim>\<open>while (indx <= indx_max) { body; indx++; }\<close>
  The loop itself is bounded by \<open>indx_max\<close>; only its body may fail to return.\<close>

function crop_variants ::
  "int \<Rightarrow> int \<Rightarrow> ctx \<Rightarrow> image_data \<Rightarrow> (fault + ctx \<times> image_data) option" where
  "crop_variants indx indx_max cnt img_data =
     (if indx \<le> indx_max then
        (case crop_variant cnt img_data indx of
           None \<Rightarrow> None
         | Some (Inl e) \<Rightarrow> Some (Inl e)
         | Some (Inr (cnt', img_data')) \<Rightarrow> crop_variants (indx + 1) indx_max cnt' img_data')
      else Some (Inr (cnt, img_data)))"
  by pat_completeness auto
termination
  by (relation "measure (\<lambda>(indx, indx_max, cnt, img_data). nat (indx_max + 1 - indx))") auto

declare crop_variants.simps [simp del]

text \<open>\<open>crop_map\<close> returns its \<open>int\<close> together with the context and the image data
  as it leaves them; \<open>None\<close> is a run that does not return.\<close>

definition crop_map :: "ctx \<Rightarrow> image_data \<Rightarrow> (fault + int \<times> ctx \<times> image_data) option" where
  "crop_map cnt img_data =
     (if px_left (crop_data cnt) = 0 \<and> px_right (crop_data cnt) = 0
         \<and> px_top (crop_data cnt) = 0 \<and> px_bottom (crop_data cnt) = 0
      then Some (Inr (0, cnt, img_data))
      else
        (let indx_max =
               (if crop_data.capture_width_high (crop_data cnt) \<noteq> 0
                   \<and> crop_data.capture_height_high (crop_data cnt) \<noteq> 0
                then 1 else 0)
         in case crop_variants 0 indx_max cnt img_data of
              None \<Rightarrow> None
            | Some (Inl e) \<Rightarrow> Some (Inl e)
            | Some (Inr (cnt', img_data')) \<Rightarrow> Some (Inr (0, cnt', img_data'))))"

text \<open>\<open>crop_init\<close> followed by \<open>crop_map\<close> on one frame, as the capture loop runs
  them.\<close>

definition init_then_crop ::
  "(int \<Rightarrow> block option) \<Rightarrow> ctx \<Rightarrow> image_data \<Rightarrow> (fault + int \<times> ctx \<times> image_data) option" where
  "init_then_crop mymalloc cnt img_data =
     (case crop_init mymalloc cnt of
        Inl e \<Rightarrow> Some (Inl e)
      | Inr cnt' \<Rightarrow> crop_map cnt' img_data)"

text \<open>What the caller sees of a run: the returned \<open>int\<close> and the two frame buffers.\<close>

definition visible :: "(fault + int \<times> ctx \<times> image_data) option \<Rightarrow> (fault + int \<times> image_data) option" where
  "visible r = map_option (map_sum id (\<lambda>(ret, cnt, img_data). (ret, img_data))) r"

section \<open>Concrete states\<close>

text \<open>An allocator that serves every non-negative size with a block filled with \<open>v\<close>,
  and fails on a negative size (which \<open>size_t\<close> turns into a huge one).\<close>

definition alloc_fill :: "byte \<Rightarrow> int \<Rightarrow> block option" where
  "alloc_fill v n = (if n < 0 then None else Some (replicate (nat n) v))"

text \<open>A zeroed context with the given configuration and image dimensions, no rotation.\<close>

definition fresh_ctx :: "config \<Rightarrow> images \<Rightarrow> ctx" where
  "fresh_ctx c i =
     \<lparr>conf = c,
      crop_data =
        \<lparr>px_left = 0, px_right = 0, px_top = 0, px_bottom = 0,
         capture_width_norm = 0, capture_height_norm = 0,
         capture_width_high = 0, capture_height_high = 0,
         buffer_norm = None, buffer_high = None\<rparr>,
      rotate_data =
        \<lparr>degrees = 0, capture_width_norm = 0, capture_height_norm = 0,
         capture_width_high = 0, capture_height_high = 0, buffer_high = None\<rparr>,
      imgs = i,
      motion_log = []\<rparr>"

definition margins :: "int \<Rightarrow> int \<Rightarrow> int \<Rightarrow> int \<Rightarrow> config" where
  "margins l r t b = \<lparr>crop_left = l, crop_right = r, crop_top = t, crop_bottom = b\<rparr>"

definition dims :: "int \<Rightarrow> int \<Rightarrow> int \<Rightarrow> int \<Rightarrow> images" where
  "dims w h w_high h_high = \<lparr>width = w, height = h, width_high = w_high, height_high = h_high\<rparr>"

text \<open>A 4 by 4 frame of the Normal variant alone: 24 bytes, byte \<open>k\<close> holding \<open>k\<close>.\<close>

definition frame_4x4 :: image_data where
  "frame_4x4 = \<lparr>image_norm = Some (map of_nat [0..<24]), image_high = None\<rparr>"

text \<open>The same 4 by 4 set-up with \<open>crop_right\<close> negative, after an earlier
  initialization that left \<open>px_right = 7\<close> in the context.\<close>

definition stale_ctx :: ctx where
  "stale_ctx =
     (fresh_ctx (margins 3 (- 1) 0 0) (dims 4 4 0 0))
       \<lparr>crop_data := (crop_data (fresh_ctx (margins 3 (- 1) 0 0) (dims 4 4 0 0)))
          \<lparr>px_right := 7\<rparr>\<rparr>"

text \<open>A 6 by 4 capture rotated by 90 degrees, no margins configured. On entry
  \<open>imgs\<close> still holds the capture dimensions, the entry state that the comment of
  lines 134 to 143 describes; the output dimensions are not in place.\<close>

definition rotated_ctx :: ctx where
  "rotated_ctx =
     (fresh_ctx (margins 0 0 0 0) (dims 6 4 0 0))
       \<lparr>rotate_data :=
          \<lparr>degrees = 90, capture_width_norm = 6, capture_height_norm = 4,
           capture_width_high = 0, capture_height_high = 0, buffer_high = None\<rparr>\<rparr>"

text \<open>Both variants present: Normal 4 by 4 and High 8 by 8, one pixel off every edge.\<close>

definition high_ctx :: ctx where
  "high_ctx = fresh_ctx (margins 1 1 1 1) (dims 4 4 8 8)"

definition frame_both :: image_data where
  "frame_both = \<lparr>image_norm = Some (map of_nat [0..<24]), image_high = Some (map of_nat [0..<96])\<rparr>"

text \<open>Both variants delivered rotated by 270 degrees: captures of 6 by 4 and 10 by 8,
  so \<open>imgs\<close> holds 4 by 6 and 8 by 10 on entry. A negative left margin and nothing
  else is configured.\<close>

definition pre_rotated_ctx :: ctx where
  "pre_rotated_ctx =
     (fresh_ctx (margins (- 5) 0 0 0) (dims 4 6 8 10))
       \<lparr>rotate_data :=
          \<lparr>degrees = 270, capture_width_norm = 6, capture_height_norm = 4,
           capture_width_high = 10, capture_height_high = 8, buffer_high = None\<rparr>\<rparr>"

section \<open>The loops of crop\<close>

text \<open>The inner loop copies nothing when \<open>left \<le> right\<close>, and returns only then:
  with \<open>left > right\<close> its condition stays true and it runs off the buffers.\<close>

lemma crop_span_skip:
  "left \<le> right \<Longrightarrow> crop_span img left right buf dst base = Inr (base, dst, buf)"
  by (subst crop_span.simps) simp

lemma crop_span_keeps:
  "crop_span img left right buf dst base = Inr (base', dst', buf') \<Longrightarrow> left \<le> right"
proof (induction img left right buf dst base rule: crop_span.induct)
  case (1 img left right buf dst base)
  show ?case
  proof (rule ccontr)
    assume "\<not> left \<le> right"
    then have lt: "base < base + left - right" by simp
    from "1.prems" lt obtain v buf1 where
      "load img base = Inr v" "store buf dst v = Inr buf1"
      and rec: "crop_span img left right buf1 (dst + 1) (base + 1) = Inr (base', dst', buf')"
      by (subst (asm) crop_span.simps) (auto split: sum.splits)
    with "1.IH" lt have "left \<le> right" by blast
    with \<open>\<not> left \<le> right\<close> show False by simp
  qed
qed

text \<open>With both \<open>left\<close> and \<open>right\<close> zero the outer loop never advances
  \<open>base\<close>: it does not return once entered.\<close>

lemma crop_rows_stuck:
  assumes "crop_rows img src_endp left right buf dst base = Some y"
  shows "\<not> (left = 0 \<and> right = 0 \<and> base < src_endp)"
proof (rule crop_rows.raw_induct
    [where P = "\<lambda>img e l r buf dst b y. \<not> (l = 0 \<and> r = 0 \<and> b < e)", OF _ assms])
  fix f img e l r buf dst b y
  assume IH: "\<And>img e l r buf dst b y.
      f img e l r buf dst b = Some y \<Longrightarrow> \<not> (l = 0 \<and> r = 0 \<and> b < (e::int))"
    and body: "(if b < e then
        (case crop_span img l r buf dst (b + l) of
           Inl e \<Rightarrow> Some (Inl e)
         | Inr (base', dst', buf') \<Rightarrow> f img e l r buf' dst' (base' + r))
      else Some (Inr buf)) = Some y"
  show "\<not> (l = 0 \<and> r = 0 \<and> b < e)"
  proof
    assume a: "l = 0 \<and> r = 0 \<and> b < e"
    with body have "f img e l r buf dst b = Some y"
      by (simp add: crop_span_skip)
    with IH a show False by blast
  qed
qed

text \<open>Whenever the outer loop returns, the staging buffer is as it was.\<close>

lemma crop_rows_unchanged:
  assumes "crop_rows img src_endp left right buf dst base = Some (Inr buf')"
  shows "buf' = buf"
proof -
  have "\<forall>b'. y = Inr b' \<longrightarrow> b' = buf"
    if "crop_rows img src_endp left right buf dst base = Some y" for y
  proof (rule crop_rows.raw_induct
      [where P = "\<lambda>img e l r buf dst b y. \<forall>b'. y = Inr b' \<longrightarrow> b' = buf", OF _ that])
    fix f img e l r buf dst b y
    assume IH: "\<And>img e l r buf dst b y.
        f img e l r buf dst (b::int) = Some y \<Longrightarrow> \<forall>b'. y = Inr b' \<longrightarrow> b' = buf"
      and body: "(if b < (e::int) then
          (case crop_span img l r buf dst (b + l) of
             Inl e \<Rightarrow> Some (Inl e)
           | Inr (base', dst', buf') \<Rightarrow> f img e l r buf' dst' (base' + r))
        else Some (Inr buf)) = Some y"
    show "\<forall>b'. y = Inr b' \<longrightarrow> b' = buf"
    proof (cases "b < e")
      case False
      with body show ?thesis by auto
    next
      case True
      show ?thesis
      proof (cases "crop_span img l r buf dst (b + l)")
        case (Inl x)
        with body True show ?thesis by auto
      next
        case (Inr t)
        obtain base' dst' buf1 where t: "t = (base', dst', buf1)" by (cases t) auto
        from Inr t have "l \<le> r" by (auto dest: crop_span_keeps)
        with Inr t have "buf1 = buf" by (simp add: crop_span_skip)
        with body True Inr t have "f img e l r buf dst' (base' + r) = Some y" by simp
        with IH show ?thesis by blast
      qed
    qed
  qed
  with assms show ?thesis by blast
qed

lemma crop_rows_diverges:
  "base < src_endp \<Longrightarrow> crop_rows img src_endp 0 0 buf dst base = None"
  using crop_rows_stuck [of img src_endp 0 0 buf dst base]
  by (cases "crop_rows img src_endp 0 0 buf dst base") auto

text \<open>So the three calls of \<open>crop\<close> never write to the staging buffer when they
  return.\<close>

lemma crop_planes_unchanged:
  "crop_planes img buf calls = Some (Inr buf') \<Longrightarrow> buf' = buf"
proof (induction calls arbitrary: buf)
  case Nil
  then show ?case by simp
next
  case (Cons a calls)
  from Cons.prems obtain buf1 where
    one: "crop img (a_src a) buf (a_dst a) (a_size_src a) (a_size_dst a) (a_width_src a)
            (a_left a) (a_right a) (a_top a) (a_bottom a) = Some (Inr buf1)"
    and rest: "crop_planes img buf1 calls = Some (Inr buf')"
    by (auto split: option.splits sum.splits)
  from one have "buf1 = buf"
    by (auto simp: crop_def Let_def dest: crop_rows_unchanged)
  with rest Cons.IH show ?case by blast
qed

section \<open>The stages of crop_init\<close>

lemmas init_defs = crop_init_def init_margins_def init_left_def init_right_def init_top_def
  init_bottom_def init_warn_def init_capture_def init_dims_def init_alloc_def MOTION_LOG_def

lemmas ex_defs = fresh_ctx_def margins_def dims_def alloc_fill_def

lemma init_margins_buffers:
  "buffer_norm (crop_data (init_margins cnt)) = None
   \<and> crop_data.buffer_high (crop_data (init_margins cnt)) = None"
  by (simp add: init_margins_def init_left_def init_right_def init_top_def init_bottom_def
      MOTION_LOG_def Let_def)

lemma init_margins_frame:
  "imgs (init_margins cnt) = imgs cnt \<and> rotate_data (init_margins cnt) = rotate_data cnt"
  by (simp add: init_margins_def init_left_def init_right_def init_top_def init_bottom_def
      MOTION_LOG_def Let_def)

lemma init_warn_frame:
  "imgs (init_warn cnt) = imgs cnt \<and> rotate_data (init_warn cnt) = rotate_data cnt
   \<and> crop_data (init_warn cnt) = crop_data cnt"
  by (simp add: init_warn_def MOTION_LOG_def Let_def)

lemma init_capture_frame:
  "rotate_data (init_capture cnt) = rotate_data cnt
   \<and> px_left (crop_data (init_capture cnt)) = px_left (crop_data cnt)
   \<and> px_right (crop_data (init_capture cnt)) = px_right (crop_data cnt)
   \<and> px_top (crop_data (init_capture cnt)) = px_top (crop_data cnt)
   \<and> px_bottom (crop_data (init_capture cnt)) = px_bottom (crop_data cnt)
   \<and> buffer_norm (crop_data (init_capture cnt)) = buffer_norm (crop_data cnt)
   \<and> crop_data.buffer_high (crop_data (init_capture cnt)) = crop_data.buffer_high (crop_data cnt)"
  by (simp add: init_capture_def Let_def)

text \<open>Lines 155 to 163 leave \<open>imgs\<close> as it was exactly when the output dimensions
  are in place.\<close>

lemma init_capture_imgs:
  "(imgs (init_capture cnt) = imgs cnt) = output_dims_in_place cnt"
  by (cases "imgs cnt") (auto simp: init_capture_def output_dims_in_place_def Let_def)

lemma output_dims_in_place_cong:
  "imgs a = imgs b \<Longrightarrow> rotate_data a = rotate_data b \<Longrightarrow>
   output_dims_in_place a = output_dims_in_place b"
  by (simp add: output_dims_in_place_def)

lemma init_dims_crop_data: "crop_data (init_dims cnt) = crop_data cnt"
  by (simp add: init_dims_def Let_def)

lemma init_alloc_buffer_high:
  "init_alloc mymalloc cnt = Inr cnt' \<Longrightarrow>
   crop_data.buffer_high (crop_data cnt') = crop_data.buffer_high (crop_data cnt)"
  by (auto simp: init_alloc_def Let_def split: option.splits if_splits)

section \<open>The loop over the variants\<close>

text \<open>Every \<open>return\<close> of \<open>crop_map\<close> is \<open>return 0\<close>.\<close>

lemma crop_map_returns_zero:
  "crop_map cnt img_data = Some (Inr (ret, cnt', img_data')) \<Longrightarrow> ret = 0"
  by (auto simp: crop_map_def Let_def split: if_splits option.splits sum.splits)

text \<open>The body of the loop reads \<open>crop_data\<close> and the frame only: replacing
  \<open>conf\<close> in the context replaces it in the result and changes nothing else.\<close>

lemma crop_variant_conf:
  "crop_variant (cnt\<lparr>conf := c\<rparr>) img_data indx =
   map_option (map_sum id (\<lambda>(cnt', i). (cnt'\<lparr>conf := c\<rparr>, i))) (crop_variant cnt img_data indx)"
  by (auto simp: crop_variant_def select_variant_def update_variant_def Let_def
      split: option.splits sum.splits prod.splits)

lemma crop_variants_conf:
  "crop_variants indx indx_max (cnt\<lparr>conf := c\<rparr>) img_data =
   map_option (map_sum id (\<lambda>(cnt', i). (cnt'\<lparr>conf := c\<rparr>, i)))
     (crop_variants indx indx_max cnt img_data)"
proof (induction indx indx_max cnt img_data rule: crop_variants.induct)
  case (1 indx indx_max cnt img_data)
  show ?case
  proof (cases "indx \<le> indx_max")
    case False
    then show ?thesis by (simp add: crop_variants.simps)
  next
    case True
    show ?thesis
    proof (cases "crop_variant cnt img_data indx")
      case None
      with True show ?thesis
        by (simp add: crop_variants.simps [of indx] crop_variant_conf)
    next
      case (Some r)
      show ?thesis
      proof (cases r)
        case (Inl e)
        with True Some show ?thesis
          by (simp add: crop_variants.simps [of indx] crop_variant_conf)
      next
        case (Inr s)
        obtain cnt1 img1 where s: "s = (cnt1, img1)" by (cases s) auto
        from "1.IH" [OF True Some Inr s [symmetric]]
        have "crop_variants (indx + 1) indx_max (cnt1\<lparr>conf := c\<rparr>) img1 =
          map_option (map_sum id (\<lambda>(cnt', i). (cnt'\<lparr>conf := c\<rparr>, i)))
            (crop_variants (indx + 1) indx_max cnt1 img1)" .
        with True Some Inr s show ?thesis
          by (simp add: crop_variants.simps [of indx] crop_variant_conf id_def)
      qed
    qed
  qed
qed

text \<open>So the whole of \<open>crop_map\<close> carries a replaced \<open>conf\<close> through unread: the
  context it leaves differs in \<open>conf\<close> alone.\<close>

lemma crop_map_conf:
  "crop_map (cnt\<lparr>conf := c\<rparr>) img_data =
   map_option (map_sum id (\<lambda>(ret, cnt', i). (ret, cnt'\<lparr>conf := c\<rparr>, i))) (crop_map cnt img_data)"
proof (cases "crop_variants 0
    (if crop_data.capture_width_high (crop_data cnt) \<noteq> 0
        \<and> crop_data.capture_height_high (crop_data cnt) \<noteq> 0 then 1 else 0) cnt img_data")
  case None
  then show ?thesis
    by (simp add: crop_map_def crop_variants_conf Let_def)
next
  case (Some r)
  then show ?thesis
    by (cases r) (auto simp: crop_map_def crop_variants_conf Let_def split: prod.splits)
qed

text \<open>With the High variant present the second round of the loop takes the \<open>NULL\<close>
  staging buffer to \<open>memcpy\<close>.\<close>

lemma crop_map_high_variant_faults:
  "init_then_crop (alloc_fill 0) high_ctx frame_both = Some (Inl NullPointer)"
  by code_simp

text \<open>With \<open>left > right\<close> the inner loop copies until it leaves the staging buffer.\<close>

lemma crop_map_left_above_right_faults:
  "init_then_crop (alloc_fill 0) (fresh_ctx (margins 2 1 1 1) (dims 4 4 0 0)) frame_4x4
     = Some (Inl OutOfBounds)"
  by code_simp

section \<open>The claims\<close>

subsection \<open>C1: what crop_map copies\<close>

text \<open>
  C1 says that \<open>crop\<close> copies the retained middle span of every retained row into the
  staging buffer, and that the staging buffer then replaces the start of the frame.

  On the code the second half happens and the first does not. A 4 by 4 frame whose byte
  \<open>k\<close> holds \<open>k\<close> is cropped by one pixel on every edge, with a staging buffer
  that \<open>mymalloc\<close> filled with \<open>0xAA\<close>. The retained luma bytes are 5, 6, 9 and 10.
  \<open>crop_map\<close> returns 0 and the frame starts with six bytes \<open>0xAA\<close>: the staging
  buffer was copied back as allocated, no byte of the frame having been copied into it
  (\<open>crop_planes_unchanged\<close> shows this for every run that returns).
\<close>

theorem crop_map_copies_nothing_4x4:
  "visible (init_then_crop (alloc_fill 0xAA) (fresh_ctx (margins 1 1 1 1) (dims 4 4 0 0)) frame_4x4)
     = Some (Inr (0, \<lparr>image_norm = Some (replicate 6 0xAA @ map of_nat [6..<24]),
                       image_high = None\<rparr>))"
  by (simp add: visible_def init_then_crop_def init_defs ex_defs frame_4x4_def crop_map_def
      crop_variants.simps crop_variant_def select_variant_def crop_geometry_def plane_calls_def
      crop_def crop_rows.simps crop_span_skip memcpy_def update_variant_def Let_def
      signed_divide_int_def upt_rec_numeral eval_nat_numeral)

subsection \<open>C2: output dimensions and byte count\<close>

text \<open>
  C2 says that cropping a W by H frame by (l, r, t, b) gives the output dimensions
  (W - l - r, H - t - b) and the byte count width * height * 3 / 2, and 80 by 70 and 8400
  bytes for a 100 by 80 frame with margins (10, 10, 5, 5).

  \<open>crop_init\<close> computes exactly that: the output dimensions become 80 by 70 and the
  staging buffer has 8400 bytes. \<open>crop_map\<close> computes the cropped height again, from
  \<open>left\<close> and \<open>right\<close> (line 287): 60 rows, and so 7200 bytes copied back.
\<close>

theorem crop_map_height_from_left_right:
  "map_sum id (\<lambda>cnt. (width (imgs cnt), height (imgs cnt),
        map_option length (buffer_norm (crop_data cnt))))
      (crop_init (alloc_fill 0) (fresh_ctx (margins 10 10 5 5) (dims 100 80 0 0)))
     = Inr (80, 70, Some 8400)
   \<and> widthc (crop_geometry 100 80 10 10 5 5) = 80
   \<and> heightc (crop_geometry 100 80 10 10 5 5) = 60
   \<and> sizec (crop_geometry 100 80 10 10 5 5) = 7200"
  by (simp add: init_defs ex_defs crop_geometry_def Let_def signed_divide_int_def)

subsection \<open>C3: crop_map returns 0\<close>

text \<open>
  C3 says that after a successful initialization \<open>crop_map\<close> terminates and returns 0
  for every frame and every margin configuration.

  With a top margin alone (left and right zero) on a 4 by 4 frame, initialization
  succeeds and \<open>crop_map\<close> does not return: the outer loop of \<open>crop\<close> advances
  \<open>base\<close> by \<open>left + right = 0\<close> for ever.
\<close>

theorem crop_map_never_returns_top_only:
  "init_then_crop (alloc_fill 0) (fresh_ctx (margins 0 0 1 0) (dims 4 4 0 0)) frame_4x4 = None"
  by (simp add: init_then_crop_def init_defs ex_defs frame_4x4_def crop_map_def
      crop_variants.simps crop_variant_def select_variant_def crop_geometry_def plane_calls_def
      crop_def crop_rows_diverges Let_def signed_divide_int_def)

subsection \<open>C4: negative margins\<close>

text \<open>
  C4 says that a negative margin is reset to zero with a warning, and that no other
  edge's margin is changed by the correction.

  With \<open>crop_left = 3\<close> and \<open>crop_right = -1\<close> the warning is logged, but the
  branch for the right edge (line 95) writes \<open>px_left\<close>: the left margin, just set to
  3, becomes 0, and \<open>px_right\<close> is not written at all. In a zeroed context all four
  margins end up zero, so the configured left crop is lost; in a context that held
  \<open>px_right = 7\<close> from before, the right margin stays 7.
\<close>

theorem crop_init_negative_right_resets_left:
  "map_sum id (\<lambda>cnt. (px_left (crop_data cnt), px_right (crop_data cnt),
        px_top (crop_data cnt), px_bottom (crop_data cnt), crop_left (conf cnt), motion_log cnt))
      (crop_init (alloc_fill 0) (fresh_ctx (margins 3 (- 1) 0 0) (dims 4 4 0 0)))
     = Inr (0, 0, 0, 0, 3, [NotPositive ''crop_right'' (- 1)])
   \<and> px_left (crop_data (init_margins stale_ctx)) = 0
   \<and> px_right (crop_data (init_margins stale_ctx)) = 7"
  by (simp add: init_defs ex_defs stale_ctx_def Let_def)

subsection \<open>C5: the staging buffers\<close>

text \<open>
  C5 says that initialization allocates one staging buffer for each present variant,
  of the variant's cropped size, and none for an absent variant.

  With the High variant absent (0 by 0) and one pixel cropped off every edge of a 4 by 4
  frame, the Normal buffer has its 6 bytes, and a second block of 6 bytes is allocated
  for the absent variant: its dimensions have become -2 by -2, so that \<open>size_high\<close> is
  positive. The block goes to \<open>rotate_data.buffer_high\<close>; \<open>crop_data.buffer_high\<close>
  stays \<open>NULL\<close>.
\<close>

theorem crop_init_allocates_for_absent_high:
  "map_sum id (\<lambda>cnt. (map_option length (buffer_norm (crop_data cnt)),
        crop_data.buffer_high (crop_data cnt),
        map_option length (rotate_data.buffer_high (rotate_data cnt))))
      (crop_init (alloc_fill 0) (fresh_ctx (margins 1 1 1 1) (dims 4 4 0 0)))
     = Inr (Some 6, None, Some 6)"
  by (simp add: init_defs ex_defs Let_def signed_divide_int_def)

subsection \<open>C6: the chroma planes\<close>

text \<open>
  C6 says that a chroma plane is cropped with the luma plane's margins, unscaled,
  against its own halved row width and quarter byte count.

  The margins are the same and the byte count is the quarter, but the row width handed
  to \<open>crop\<close> for the planes U and V is \<open>width\<close>, the luma row width: for a 4 by 4
  frame all three calls get 4, while the chroma row width \<open>w2\<close> is 2 and is not used.
\<close>

theorem chroma_calls_get_luma_width:
  "map a_width_src (plane_calls (crop_geometry 4 4 1 1 1 1) 4 1 1 1 1) = [4, 4, 4]
   \<and> map a_size_src (plane_calls (crop_geometry 4 4 1 1 1 1) 4 1 1 1 1) = [16, 4, 4]
   \<and> map a_left (plane_calls (crop_geometry 4 4 1 1 1 1) 4 1 1 1 1) = [1, 1, 1]
   \<and> w2 (crop_geometry 4 4 1 1 1 1) = 2"
  by (simp add: plane_calls_def crop_geometry_def Let_def signed_divide_int_def)

subsection \<open>C7: no margins, no change\<close>

text \<open>
  C7: when all four effective margins are zero, \<open>crop_map\<close> returns 0 at once and
  leaves the context (the reported dimensions with it) and the frame buffers as they
  are.
\<close>

theorem crop_map_zero_margins_identity:
  assumes "px_left (crop_data cnt) = 0" and "px_right (crop_data cnt) = 0"
    and "px_top (crop_data cnt) = 0" and "px_bottom (crop_data cnt) = 0"
  shows "crop_map cnt img_data = Some (Inr (0, cnt, img_data))"
  using assms by (simp add: crop_map_def)

theorem crop_map_zero_margins_identity_witness:
  "visible (init_then_crop (alloc_fill 0) (fresh_ctx (margins 0 0 0 0) (dims 4 4 0 0)) frame_4x4)
     = Some (Inr (0, frame_4x4))"
proof -
  let ?c = "init_capture (init_warn (init_margins (fresh_ctx (margins 0 0 0 0) (dims 4 4 0 0))))"
  have init: "crop_init (alloc_fill 0) (fresh_ctx (margins 0 0 0 0) (dims 4 4 0 0)) = Inr ?c"
    by (simp add: init_defs ex_defs Let_def)
  have "px_left (crop_data ?c) = 0" and "px_right (crop_data ?c) = 0"
    and "px_top (crop_data ?c) = 0" and "px_bottom (crop_data ?c) = 0"
    by (simp_all add: init_defs ex_defs Let_def)
  then have "crop_map ?c frame_4x4 = Some (Inr (0, ?c, frame_4x4))"
    by (rule crop_map_zero_margins_identity)
  with init show ?thesis
    by (simp add: init_then_crop_def visible_def)
qed

subsection \<open>C8: initialization without margins\<close>

text \<open>
  C8 says that when all four margins resolve to zero, \<open>crop_init\<close> records cropping as
  disabled, allocates no staging buffer and returns without modifying the output
  dimensions in \<open>imgs\<close>.

  As stated, for every entry state, this fails: lines 155 to 163 run before the check of
  the margins and, for a rotation by 90 or 270 degrees, assign the output dimensions from
  \<open>rotate_data\<close>. When \<open>imgs\<close> holds the 6 by 4 capture dimensions on entry, with a
  rotation by 90 degrees and no margins, it holds 4 by 6 on return.
\<close>

theorem crop_init_zero_margins_rotated_swaps:
  "px_left (crop_data (init_margins rotated_ctx)) = 0
   \<and> px_right (crop_data (init_margins rotated_ctx)) = 0
   \<and> px_top (crop_data (init_margins rotated_ctx)) = 0
   \<and> px_bottom (crop_data (init_margins rotated_ctx)) = 0
   \<and> imgs rotated_ctx = dims 6 4 0 0
   \<and> map_sum id imgs (crop_init (alloc_fill 0) rotated_ctx) = Inr (dims 4 6 0 0)"
  by (simp add: init_defs ex_defs rotated_ctx_def Let_def signed_divide_int_def)

text \<open>
  C8 as amended: when all four margins resolve to zero and the output dimensions are in
  place on entry (no rotation by 90 or 270 degrees, or \<open>imgs\<close> already holding what
  lines 157 to 161 assign, as after the rotation stage), \<open>crop_init\<close> returns, for any
  allocator, with the four margins zero (cropping disabled), both staging buffer
  pointers \<open>NULL\<close>, and \<open>imgs\<close> and \<open>rotate_data\<close> as they were.
\<close>

theorem crop_init_zero_margins_keeps_dims:
  assumes "px_left (crop_data (init_margins cnt)) = 0"
    and "px_right (crop_data (init_margins cnt)) = 0"
    and "px_top (crop_data (init_margins cnt)) = 0"
    and "px_bottom (crop_data (init_margins cnt)) = 0"
    and "output_dims_in_place cnt"
  shows "\<exists>cnt'. crop_init mymalloc cnt = Inr cnt'
     \<and> px_left (crop_data cnt') = 0 \<and> px_right (crop_data cnt') = 0
     \<and> px_top (crop_data cnt') = 0 \<and> px_bottom (crop_data cnt') = 0
     \<and> buffer_norm (crop_data cnt') = None \<and> crop_data.buffer_high (crop_data cnt') = None
     \<and> rotate_data cnt' = rotate_data cnt
     \<and> imgs cnt' = imgs cnt"
proof -
  let ?m = "init_warn (init_margins cnt)"
  let ?c = "init_capture ?m"
  have px: "px_left (crop_data ?c) = 0 \<and> px_right (crop_data ?c) = 0
      \<and> px_top (crop_data ?c) = 0 \<and> px_bottom (crop_data ?c) = 0"
    using assms(1-4) by (simp add: init_capture_frame init_warn_frame)
  then have "crop_init mymalloc cnt = Inr ?c"
    by (simp add: crop_init_def Let_def)
  moreover have "buffer_norm (crop_data ?c) = None \<and> crop_data.buffer_high (crop_data ?c) = None"
    by (simp add: init_capture_frame init_warn_frame init_margins_buffers)
  moreover have "rotate_data ?c = rotate_data cnt"
    by (simp add: init_capture_frame init_warn_frame init_margins_frame)
  moreover have "imgs ?c = imgs cnt"
  proof -
    have same: "imgs ?m = imgs cnt \<and> rotate_data ?m = rotate_data cnt"
      by (simp add: init_warn_frame init_margins_frame)
    with assms(5) have "output_dims_in_place ?m"
      by (simp add: output_dims_in_place_cong [of ?m cnt])
    then have "imgs ?c = imgs ?m" by (simp add: init_capture_imgs)
    with same show ?thesis by simp
  qed
  ultimately show ?thesis using px by blast
qed

theorem crop_init_zero_margins_keeps_dims_witness:
  "output_dims_in_place pre_rotated_ctx
   \<and> degrees (rotate_data pre_rotated_ctx) = 270
   \<and> crop_init (alloc_fill 0) pre_rotated_ctx
       = Inr (projr (crop_init (alloc_fill 0) pre_rotated_ctx))
   \<and> px_left (crop_data (projr (crop_init (alloc_fill 0) pre_rotated_ctx))) = 0
   \<and> buffer_norm (crop_data (projr (crop_init (alloc_fill 0) pre_rotated_ctx))) = None
   \<and> imgs (projr (crop_init (alloc_fill 0) pre_rotated_ctx)) = dims 4 6 8 10
   \<and> motion_log (projr (crop_init (alloc_fill 0) pre_rotated_ctx))
       = [NotPositive ''crop_left'' (- 5)]"
proof -
  have pre: "output_dims_in_place pre_rotated_ctx"
    by (simp add: output_dims_in_place_def pre_rotated_ctx_def ex_defs signed_divide_int_def)
  have "px_left (crop_data (init_margins pre_rotated_ctx)) = 0"
    and "px_right (crop_data (init_margins pre_rotated_ctx)) = 0"
    and "px_top (crop_data (init_margins pre_rotated_ctx)) = 0"
    and "px_bottom (crop_data (init_margins pre_rotated_ctx)) = 0"
    by (simp_all add: pre_rotated_ctx_def init_defs ex_defs Let_def)
  from crop_init_zero_margins_keeps_dims [OF this pre, of "alloc_fill 0"]
  obtain cnt' where init: "crop_init (alloc_fill 0) pre_rotated_ctx = Inr cnt'"
    and "px_left (crop_data cnt') = 0" and "buffer_norm (crop_data cnt') = None"
    and "imgs cnt' = imgs pre_rotated_ctx"
    by blast
  moreover have "imgs pre_rotated_ctx = dims 4 6 8 10"
    and "degrees (rotate_data pre_rotated_ctx) = 270"
    by (simp_all add: pre_rotated_ctx_def ex_defs)
  moreover have "motion_log (projr (crop_init (alloc_fill 0) pre_rotated_ctx))
      = [NotPositive ''crop_left'' (- 5)]"
    by (simp add: pre_rotated_ctx_def init_defs ex_defs Let_def signed_divide_int_def)
  ultimately show ?thesis using pre by simp
qed

text \<open>The condition on the entry state cannot be dropped or weakened: with the four
  margins zero, \<open>crop_init\<close> changes \<open>imgs\<close> in every state where the output
  dimensions are not in place.\<close>

lemma crop_init_zero_margins_changes_dims:
  assumes "crop_init mymalloc cnt = Inr cnt'"
    and "px_left (crop_data (init_margins cnt)) = 0"
    and "px_right (crop_data (init_margins cnt)) = 0"
    and "px_top (crop_data (init_margins cnt)) = 0"
    and "px_bottom (crop_data (init_margins cnt)) = 0"
    and "\<not> output_dims_in_place cnt"
  shows "imgs cnt' \<noteq> imgs cnt"
proof -
  let ?m = "init_warn (init_margins cnt)"
  let ?c = "init_capture ?m"
  have "px_left (crop_data ?c) = 0 \<and> px_right (crop_data ?c) = 0
      \<and> px_top (crop_data ?c) = 0 \<and> px_bottom (crop_data ?c) = 0"
    using assms(2-5) by (simp add: init_capture_frame init_warn_frame)
  with assms(1) have c: "cnt' = ?c"
    by (simp add: crop_init_def Let_def)
  have same: "imgs ?m = imgs cnt \<and> rotate_data ?m = rotate_data cnt"
    by (simp add: init_warn_frame init_margins_frame)
  with assms(6) have "\<not> output_dims_in_place ?m"
    by (simp add: output_dims_in_place_cong [of ?m cnt])
  then have "imgs ?c \<noteq> imgs ?m" by (simp add: init_capture_imgs)
  with same c show ?thesis by simp
qed

subsection \<open>C9: the configuration after initialization\<close>

text \<open>
  C9: \<open>crop_map\<close> works from the copy of the margins in \<open>crop_data\<close> alone. Two
  runs on contexts that differ only in \<open>conf\<close> (so in \<open>conf.crop_left\<close>,
  \<open>crop_right\<close>, \<open>crop_top\<close>, \<open>crop_bottom\<close>) give the same returned value and the
  same frame buffers; they also fault alike and fail to return alike.
\<close>

theorem crop_map_independent_of_conf:
  "visible (crop_map (cnt\<lparr>conf := c\<rparr>) img_data) = visible (crop_map cnt img_data)"
proof (cases "crop_variants 0
    (if crop_data.capture_width_high (crop_data cnt) \<noteq> 0
        \<and> crop_data.capture_height_high (crop_data cnt) \<noteq> 0 then 1 else 0) cnt img_data")
  case None
  then show ?thesis
    by (simp add: crop_map_def visible_def crop_variants_conf Let_def)
next
  case (Some r)
  then show ?thesis
    by (cases r) (auto simp: crop_map_def visible_def crop_variants_conf Let_def
        option.map_comp split: prod.splits)
qed

subsection \<open>C10: the staging buffer of the High variant\<close>

text \<open>
  C10: whenever \<open>crop_init\<close> returns, \<open>crop_data.buffer_high\<close> is \<open>NULL\<close>, also with
  the High variant present and cropping enabled (line 200 stores the block in
  \<open>rotate_data.buffer_high\<close>), so that the staging buffer \<open>crop_map\<close> selects for the
  High variant (\<open>indx = 1\<close>) is \<open>NULL\<close>.
\<close>

theorem crop_init_buffer_high_null:
  assumes "crop_init mymalloc cnt = Inr cnt'"
  shows "crop_data.buffer_high (crop_data cnt') = None
    \<and> select_variant cnt' img_data 1 =
        (image_high img_data,
         crop_data.capture_width_high (crop_data cnt'),
         crop_data.capture_height_high (crop_data cnt'),
         None)"
proof -
  let ?c = "init_capture (init_warn (init_margins cnt))"
  have c: "crop_data.buffer_high (crop_data ?c) = None"
    by (simp add: init_capture_frame init_warn_frame init_margins_buffers)
  have "crop_data.buffer_high (crop_data cnt') = None"
  proof (cases "px_left (crop_data ?c) = 0 \<and> px_right (crop_data ?c) = 0
      \<and> px_top (crop_data ?c) = 0 \<and> px_bottom (crop_data ?c) = 0")
    case True
    with assms have "cnt' = ?c" by (simp add: crop_init_def Let_def)
    with c show ?thesis by simp
  next
    case False
    with assms have "init_alloc mymalloc (init_dims ?c) = Inr cnt'"
      by (auto simp add: crop_init_def Let_def)
    then have "crop_data.buffer_high (crop_data cnt')
        = crop_data.buffer_high (crop_data (init_dims ?c))"
      by (rule init_alloc_buffer_high)
    with c show ?thesis by (simp add: init_dims_crop_data)
  qed
  then show ?thesis by (simp add: select_variant_def)
qed

theorem crop_init_buffer_high_null_witness:
  "crop_init (alloc_fill 0) high_ctx = Inr (projr (crop_init (alloc_fill 0) high_ctx))
   \<and> crop_data.buffer_high (crop_data (projr (crop_init (alloc_fill 0) high_ctx))) = None
   \<and> map_option length
        (rotate_data.buffer_high (rotate_data (projr (crop_init (alloc_fill 0) high_ctx))))
       = Some 54
   \<and> select_variant (projr (crop_init (alloc_fill 0) high_ctx)) frame_both 1
       = (image_high frame_both, 8, 8, None)"
proof -
  have init: "crop_init (alloc_fill 0) high_ctx
      = Inr (projr (crop_init (alloc_fill 0) high_ctx))"
    by (simp add: high_ctx_def init_defs ex_defs Let_def signed_divide_int_def)
  have cap: "crop_data.capture_width_high (crop_data (projr (crop_init (alloc_fill 0) high_ctx))) = 8
      \<and> crop_data.capture_height_high (crop_data (projr (crop_init (alloc_fill 0) high_ctx))) = 8
      \<and> map_option length
          (rotate_data.buffer_high (rotate_data (projr (crop_init (alloc_fill 0) high_ctx))))
         = Some 54"
    by (simp add: high_ctx_def init_defs ex_defs Let_def signed_divide_int_def)
  from crop_init_buffer_high_null [OF init, of frame_both] cap
  show ?thesis using init by simp
qed

end
